theory Spec2Isabelle
  imports Complex_Main "HOL-Library.Log_Nat" "HOL-Library.Multiset"
begin

section \<open>The file layer of \<^verbatim>\<open>duplex/file_io.py\<close>\<close>

text \<open>
  The module classifies a location string (\<^verbatim>\<open>_infer_protocol\<close>), fetches its
  content (\<^verbatim>\<open>get\<close>), infers a file type tag (\<^verbatim>\<open>infer_file_type_from_uri\<close>),
  and produces rows or paths lazily (\<^verbatim>\<open>scan\<close> and the \<^verbatim>\<open>scan_csv*\<close>
  generators); \<^verbatim>\<open>progress\<close> relays the items of any iterable.

  Everything the functions read from outside (the local file system, the HTTP server,
  the codecs of the standard library, the classifier of \<^verbatim>\<open>duplex/file_types.py\<close>)
  is a field of one record, the world, which every function takes as its first argument.
  The world does not change while a function runs.
\<close>

subsection \<open>Data\<close>

type_synonym bytes = string

text \<open>
  Text (Python's \<^verbatim>\<open>str\<close>) is represented by its UTF-8 encoding, so that
  \<^verbatim>\<open>bytes.decode('utf-8')\<close> either raises or returns the same list of bytes.
\<close>

datatype Protocols = UNKNOWN | HTTP | FILE

datatype error =
    FileTypeNotSupportedYet
  | FileScanNotPossible
  | IsADirectoryError
  | FileNotFoundError
  | NotADirectoryError
  | PermissionError
  | ValueError
  | URLError
  | UnicodeDecodeError
  | EOFError
  | IndexError
  | CodecError
  | CsvError

text \<open>
  What a path names on the local file system. A directory lists its entries in the order
  in which the operating system enumerates them. A file or a directory may be unreadable
  for the process (it can be named, not opened or listed), and an entry of a directory may
  be a symbolic link to a directory.
\<close>

datatype node =
    RegularFile bytes
  | UnreadableFile
  | Directory "(string \<times> node) list"
  | UnreadableDirectory "(string \<times> node) list"
  | LinkedDirectory "(string \<times> node) list"

text \<open>What \<^verbatim>\<open>get\<close> returns: the bytes, or the member \<^verbatim>\<open>Protocols.UNKNOWN\<close>.\<close>

datatype fetched = Bytes bytes | Unknown

text \<open>What a generator yields: a CSV row (a list of fields) or a string (a line, a path).\<close>

datatype item = Row "string list" | Str string

text \<open>The content accesses a call performs, in order: which strategy touched which
  location.\<close>

datatype access = LocalOpen string | HttpGet string | LocalWalk string

record world =
  local_fs :: "string \<Rightarrow> error + node"
  http_body :: "string \<Rightarrow> error + bytes"
  bracketed_host_ok :: "string \<Rightarrow> bool"
  nfkc_ok :: "string \<Rightarrow> bool"
  guess_file_type :: "bytes \<Rightarrow> bool \<Rightarrow> string option"
  mimetypes_guess_type :: "string \<Rightarrow> string option"
  utf8_valid :: "bytes \<Rightarrow> bool"
  splitlines :: "string \<Rightarrow> string list"
  csv_reader :: "string list \<Rightarrow> string list list \<times> error option"
  gzip_text :: "bytes \<Rightarrow> string \<times> error option"
  bz2_text :: "bytes \<Rightarrow> string \<times> error option"
  lzma_text :: "bytes \<Rightarrow> string \<times> error option"
  zip_namelist :: "bytes \<Rightarrow> string list option"
  zip_open :: "bytes \<Rightarrow> string \<Rightarrow> (bytes \<times> error option) option"
  abspath :: "string \<Rightarrow> string"

text \<open>
  \<^item> \<open>local_fs\<close>: the object a path names, or the error with which the operating system
    refuses to resolve the path (\<^verbatim>\<open>FileNotFoundError\<close>, \<^verbatim>\<open>NotADirectoryError\<close> when
    the path runs through a file, \<^verbatim>\<open>PermissionError\<close> when it runs through a directory
    that may not be searched).
  \<^item> \<open>http_body\<close>: the body that \<^verbatim>\<open>urlopen(url).read()\<close> returns, or the error it
    raises.
  \<^item> \<open>bracketed_host_ok\<close>, \<open>nfkc_ok\<close>: the two checks of \<^verbatim>\<open>urlsplit\<close> that rest on
    \<^verbatim>\<open>ipaddress\<close> and \<^verbatim>\<open>unicodedata\<close>: whether a bracketed host is an IPv6 or
    IPvFuture address, and whether a host with characters outside ASCII stays free of
    delimiters under NFKC normalisation.
  \<^item> \<open>guess_file_type\<close>: \<^verbatim>\<open>FileType.guess_file_type(bytes, mimetype)\<close> of
    \<^verbatim>\<open>duplex/file_types.py\<close>, which is not part of the sources at hand; \<open>None\<close>
    stands for its raising \<^verbatim>\<open>FileTypeNotSupportedYet\<close>.
  \<^item> \<open>mimetypes_guess_type\<close>: \<^verbatim>\<open>mimetypes.guess_type(uri)[0]\<close>.
  \<^item> \<open>utf8_valid\<close>: whether \<^verbatim>\<open>bytes.decode('utf-8')\<close> succeeds; \<open>splitlines\<close>:
    \<^verbatim>\<open>str.splitlines()\<close>; \<open>csv_reader\<close>: the rows that \<^verbatim>\<open>csv.reader\<close> delivers
    over the lines, and the error that ends its reading, if any; \<open>abspath\<close>:
    \<^verbatim>\<open>os.path.abspath\<close>.
  \<^item> \<open>gzip_text\<close>, \<open>bz2_text\<close>, \<open>lzma_text\<close>: a file opened in mode \<^verbatim>\<open>'rt'\<close> is
    decompressed and decoded as it is read. The first component is the text whose lines
    the reader delivers, before newline translation; the second is the error that ends the
    reading, if the stream is damaged, truncated or does not decode (\<open>None\<close> when the
    stream ends well). A file that is no such stream at all delivers the empty text and an
    error.
  \<^item> \<open>zip_namelist\<close>: \<^verbatim>\<open>ZipFile.namelist()\<close>, \<open>None\<close> when the file is no zip
    archive.
  \<^item> \<open>zip_open\<close>: \<^verbatim>\<open>ZipFile.open(name)\<close>, \<open>None\<close> when the member cannot be
    opened; otherwise the bytes whose lines the reader delivers, and the error that ends
    the reading if the member is damaged (\<open>None\<close> when it ends well).
\<close>

type_synonym 'a io = "access list \<times> (error + 'a)"

subsection \<open>Strings\<close>

definition LF :: char where
  "LF = CHR 0x0A"

definition CR :: char where
  "CR = CHR 0x0D"

definition TAB :: char where
  "TAB = CHR 0x09"

definition startswith :: "string \<Rightarrow> string \<Rightarrow> bool" where
  "startswith s p = (take (length p) s = p)"

definition lower_char :: "char \<Rightarrow> char" where
  "lower_char c =
     (case map_of (zip ''ABCDEFGHIJKLMNOPQRSTUVWXYZ'' ''abcdefghijklmnopqrstuvwxyz'') c of
        Some l \<Rightarrow> l | None \<Rightarrow> c)"

definition upper_char :: "char \<Rightarrow> char" where
  "upper_char c =
     (case map_of (zip ''abcdefghijklmnopqrstuvwxyz'' ''ABCDEFGHIJKLMNOPQRSTUVWXYZ'') c of
        Some u \<Rightarrow> u | None \<Rightarrow> c)"

definition ascii_letters :: "char set" where
  "ascii_letters = set ''abcdefghijklmnopqrstuvwxyzABCDEFGHIJKLMNOPQRSTUVWXYZ''"

definition scheme_chars :: "char set" where
  "scheme_chars =
     set ''abcdefghijklmnopqrstuvwxyzABCDEFGHIJKLMNOPQRSTUVWXYZ0123456789+-.''"

text \<open>The characters that \<^verbatim>\<open>urlsplit\<close> strips from the left of the string: the C0
  controls and the space.\<close>

definition c0_control_or_space :: "char set" where
  "c0_control_or_space =
     set [CHR 0x00, CHR 0x01, CHR 0x02, CHR 0x03, CHR 0x04, CHR 0x05, CHR 0x06, CHR 0x07,
          CHR 0x08, CHR 0x09, CHR 0x0A, CHR 0x0B, CHR 0x0C, CHR 0x0D, CHR 0x0E, CHR 0x0F,
          CHR 0x10, CHR 0x11, CHR 0x12, CHR 0x13, CHR 0x14, CHR 0x15, CHR 0x16, CHR 0x17,
          CHR 0x18, CHR 0x19, CHR 0x1A, CHR 0x1B, CHR 0x1C, CHR 0x1D, CHR 0x1E, CHR 0x1F,
          CHR 0x20]"

text \<open>A byte of an ASCII character has its highest bit clear.\<close>

definition isascii :: "string \<Rightarrow> bool" where
  "isascii s = list_all (\<lambda>c. \<not> digit7 c) s"

subsection \<open>\<^verbatim>\<open>urlparse\<close>\<close>

text \<open>
  \<^verbatim>\<open>urlparse(uri).scheme\<close>, as \<^verbatim>\<open>urllib.parse.urlsplit\<close> of CPython 3.11 computes
  it, with the \<^verbatim>\<open>ValueError\<close> it raises:
  \<^item> the C0 controls and spaces at the left are stripped, then tab, carriage return and
    line feed are removed throughout;
  \<^item> when a colon stands at a position \<open>i > 0\<close>, the first character is an ASCII letter
    and every character before the colon is a scheme character, the scheme is that prefix
    in lower case and the rest follows the colon; otherwise the scheme is empty;
  \<^item> when the rest begins with \<^verbatim>\<open>//\<close>, the host part runs up to the first of
    \<^verbatim>\<open>/\<close>, \<^verbatim>\<open>?\<close> and \<^verbatim>\<open>#\<close>; a host part with one kind of bracket and not the
    other, or with a bracketed host that is no address, raises;
  \<^item> a host part with characters outside ASCII that does not pass the NFKC check raises.
\<close>

definition bracketed_host :: "string \<Rightarrow> string" where
  "bracketed_host netloc =
     takeWhile (\<lambda>c. c \<noteq> CHR '']'') (drop 1 (dropWhile (\<lambda>c. c \<noteq> CHR ''['') netloc))"

definition checknetloc :: "world \<Rightarrow> string \<Rightarrow> bool" where
  "checknetloc w netloc = (netloc = [] \<or> isascii netloc \<or> nfkc_ok w netloc)"

definition urlparse_scheme :: "world \<Rightarrow> string \<Rightarrow> error + string" where
  "urlparse_scheme w uri =
     (let url = filter (\<lambda>c. c \<noteq> TAB \<and> c \<noteq> CR \<and> c \<noteq> LF)
                  (dropWhile (\<lambda>c. c \<in> c0_control_or_space) uri);
          pre = takeWhile (\<lambda>c. c \<noteq> CHR '':'') url;
          found = (length pre < length url \<and> pre \<noteq> [] \<and> hd pre \<in> ascii_letters \<and>
                   list_all (\<lambda>c. c \<in> scheme_chars) pre);
          scheme = (if found then map lower_char pre else []);
          rest = (if found then drop (Suc (length pre)) url else url);
          netloc = (if take 2 rest = ''//''
                    then takeWhile (\<lambda>c. c \<noteq> CHR ''/'' \<and> c \<noteq> CHR ''?'' \<and> c \<noteq> CHR ''#'')
                           (drop 2 rest)
                    else [])
      in if (CHR ''['' \<in> set netloc) \<noteq> (CHR '']'' \<in> set netloc) then Inl ValueError
         else if CHR ''['' \<in> set netloc \<and> \<not> bracketed_host_ok w (bracketed_host netloc)
           then Inl ValueError
         else if \<not> checknetloc w netloc then Inl ValueError
         else Inr scheme)"

subsection \<open>Protocol resolution and fetching\<close>

text \<open>Resolving a path: the empty path names nothing.\<close>

definition lookup :: "world \<Rightarrow> string \<Rightarrow> error + node" where
  "lookup w path = (if path = [] then Inl FileNotFoundError else local_fs w path)"

text \<open>\<^verbatim>\<open>os.path.exists\<close> is false whenever the path does not resolve.\<close>

definition path_exists :: "world \<Rightarrow> string \<Rightarrow> bool" where
  "path_exists w path = (case lookup w path of Inl e \<Rightarrow> False | Inr n \<Rightarrow> True)"

definition infer_protocol :: "world \<Rightarrow> string \<Rightarrow> error + Protocols" where
  "infer_protocol w uri =
     (case urlparse_scheme w uri of
        Inl e \<Rightarrow> Inl e
      | Inr scheme \<Rightarrow>
          if startswith scheme ''http'' then Inr HTTP
          else if startswith uri ''file'' \<or> path_exists w uri then Inr FILE
          else Inr UNKNOWN)"

text \<open>\<^verbatim>\<open>open(path, 'rb')\<close> and the read that follows it.\<close>

definition open_local :: "world \<Rightarrow> string \<Rightarrow> error + bytes" where
  "open_local w path =
     (case lookup w path of
        Inl e \<Rightarrow> Inl e
      | Inr (RegularFile b) \<Rightarrow> Inr b
      | Inr UnreadableFile \<Rightarrow> Inl PermissionError
      | Inr (Directory entries) \<Rightarrow> Inl IsADirectoryError
      | Inr (UnreadableDirectory entries) \<Rightarrow> Inl PermissionError
      | Inr (LinkedDirectory entries) \<Rightarrow> Inl IsADirectoryError)"

definition get_local :: "world \<Rightarrow> string \<Rightarrow> bytes io" where
  "get_local w path = ([LocalOpen path], open_local w path)"

definition get_url :: "world \<Rightarrow> string \<Rightarrow> bytes io" where
  "get_url w url =
     ([HttpGet url], http_body w url)"

text \<open>\<^verbatim>\<open>get\<close> asks for the protocol once per test.\<close>

definition get :: "world \<Rightarrow> string \<Rightarrow> fetched io" where
  "get w uri =
     (case infer_protocol w uri of
        Inl e \<Rightarrow> ([], Inl e)
      | Inr p \<Rightarrow>
          if p = FILE then
            (case get_local w uri of (trail, r) \<Rightarrow> (trail, map_sum id Bytes r))
          else
            (case infer_protocol w uri of
               Inl e \<Rightarrow> ([], Inl e)
             | Inr q \<Rightarrow>
                 if q = HTTP then
                   (case get_url w uri of (trail, r) \<Rightarrow> (trail, map_sum id Bytes r))
                 else ([], Inr Unknown)))"

subsection \<open>Type inference\<close>

text \<open>\<^verbatim>\<open>str.split(sep)\<close>: the pieces between the occurrences of the separator.\<close>

fun split_acc :: "char \<Rightarrow> string \<Rightarrow> string \<Rightarrow> string list" where
  "split_acc sep acc [] = [acc]"
| "split_acc sep acc (c # cs) =
     (if c = sep then acc # split_acc sep [] cs else split_acc sep (acc @ [c]) cs)"

definition split :: "char \<Rightarrow> string \<Rightarrow> string list" where
  "split sep s = split_acc sep [] s"

text \<open>\<^verbatim>\<open>str.upper()\<close> on the ASCII letters, which is all a media type holds.\<close>

definition upper :: "string \<Rightarrow> string" where
  "upper s = map upper_char s"

text \<open>The handler \<^verbatim>\<open>except FileTypeNotSupportedYet\<close> of
  \<^verbatim>\<open>infer_file_type_from_uri\<close>: the guess from the name.\<close>

definition guess_from_name :: "world \<Rightarrow> string \<Rightarrow> bool \<Rightarrow> error + string" where
  "guess_from_name w uri mimetype =
     (case mimetypes_guess_type w uri of
        None \<Rightarrow> Inl FileTypeNotSupportedYet
      | Some file_type \<Rightarrow>
          if file_type = [] then Inl FileTypeNotSupportedYet
          else if mimetype then Inr file_type
          else (case split CHR ''/'' file_type of
                  a # b # rest \<Rightarrow> Inr (upper b)
                | _ \<Rightarrow> Inl IndexError))"

text \<open>
  The call of \<^verbatim>\<open>get\<close> stands before the \<^verbatim>\<open>try\<close>, so its errors propagate.
  Inside the \<^verbatim>\<open>try\<close>, both the \<^verbatim>\<open>raise\<close> for the unknown protocol and a
  classifier that cannot decide end in the handler.
\<close>

definition infer_file_type_from_uri :: "world \<Rightarrow> string \<Rightarrow> bool \<Rightarrow> string io" where
  "infer_file_type_from_uri w uri mimetype =
     (case get w uri of
        (trail, Inl e) \<Rightarrow> (trail, Inl e)
      | (trail, Inr file_bytes) \<Rightarrow>
          (case (case file_bytes of
                   Unknown \<Rightarrow> None
                 | Bytes b \<Rightarrow> guess_file_type w b mimetype) of
             Some file_type \<Rightarrow> (trail, Inr file_type)
           | None \<Rightarrow> (trail, guess_from_name w uri mimetype)))"

subsection \<open>Generators\<close>

text \<open>
  A generator body that runs to its end performs accesses, yields items and then either
  returns or raises. \<open>Run trail ys e\<close> is that run: the items \<open>ys\<close> were yielded, in this
  order, before the body ended, with the exception \<open>e\<close> if it raised.
\<close>

datatype 'a run = Run (accesses: "access list") (yielded: "'a list") (raised: "error option")

definition after :: "access list \<Rightarrow> 'a run \<Rightarrow> 'a run" where
  "after trail r = Run (trail @ accesses r) (yielded r) (raised r)"

text \<open>Iterating over a file: one line per pull, each with its terminator, the last one
  possibly without.\<close>

fun readlines_acc :: "string \<Rightarrow> string \<Rightarrow> string list" where
  "readlines_acc acc [] = (if acc = [] then [] else [acc])"
| "readlines_acc acc (c # cs) =
     (if c = LF then (acc @ [LF]) # readlines_acc [] cs else readlines_acc (acc @ [c]) cs)"

definition readlines :: "string \<Rightarrow> string list" where
  "readlines s = readlines_acc [] s"

text \<open>Text mode with the default \<^verbatim>\<open>newline=None\<close>: \<^verbatim>\<open>\r\n\<close> and \<^verbatim>\<open>\r\<close>
  are read as \<^verbatim>\<open>\n\<close>.\<close>

fun universal_newlines :: "string \<Rightarrow> string" where
  "universal_newlines [] = []"
| "universal_newlines [c] = [if c = CR then LF else c]"
| "universal_newlines (c # d # cs) =
     (if c = CR \<and> d = LF then LF # universal_newlines cs
      else (if c = CR then LF else c) # universal_newlines (d # cs))"

text \<open>\<^verbatim>\<open>row.replace('\n', '')\<close>\<close>

definition replace_LF :: "string \<Rightarrow> string" where
  "replace_LF row = filter (\<lambda>c. c \<noteq> LF) row"

definition scan_csv :: "world \<Rightarrow> string \<Rightarrow> item run" where
  "scan_csv w uri =
     (case get w uri of
        (trail, Inl e) \<Rightarrow> Run trail [] (Some e)
      | (trail, Inr Unknown) \<Rightarrow> Run trail [] (Some FileTypeNotSupportedYet)
      | (trail, Inr (Bytes csv_string)) \<Rightarrow>
          if \<not> utf8_valid w csv_string then Run trail [] (Some UnicodeDecodeError)
          else (case csv_reader w (splitlines w csv_string) of
                  (rows, e) \<Rightarrow> Run trail (map Row rows) e))"

text \<open>\<^verbatim>\<open>for row in f: yield row.replace('\n', '')\<close> over a file opened in text
  mode.\<close>

definition text_rows :: "string \<Rightarrow> item list" where
  "text_rows text = map (\<lambda>row. Str (replace_LF row)) (readlines (universal_newlines text))"

text \<open>\<^verbatim>\<open>gzip.open(uri, 'rt')\<close>, \<^verbatim>\<open>bz2.open(uri, 'rt')\<close> and
  \<^verbatim>\<open>lzma.open(uri, 'rt')\<close> open the string as a path of the local file system. The
  lines that the reader delivers are yielded one by one; an error of the stream is raised
  after them.\<close>

definition scan_csv_gzip :: "world \<Rightarrow> string \<Rightarrow> item run" where
  "scan_csv_gzip w uri =
     (case open_local w uri of
        Inl e \<Rightarrow> Run [LocalOpen uri] [] (Some e)
      | Inr b \<Rightarrow>
          (case gzip_text w b of (text, e) \<Rightarrow> Run [LocalOpen uri] (text_rows text) e))"

definition scan_csv_bzip2 :: "world \<Rightarrow> string \<Rightarrow> item run" where
  "scan_csv_bzip2 w uri =
     (case open_local w uri of
        Inl e \<Rightarrow> Run [LocalOpen uri] [] (Some e)
      | Inr b \<Rightarrow>
          (case bz2_text w b of (text, e) \<Rightarrow> Run [LocalOpen uri] (text_rows text) e))"

definition scan_csv_xz :: "world \<Rightarrow> string \<Rightarrow> item run" where
  "scan_csv_xz w uri =
     (case open_local w uri of
        Inl e \<Rightarrow> Run [LocalOpen uri] [] (Some e)
      | Inr b \<Rightarrow>
          (case lzma_text w b of (text, e) \<Rightarrow> Run [LocalOpen uri] (text_rows text) e))"

text \<open>\<^verbatim>\<open>zipfile.ZipFile(uri)\<close>: opens the local path and reads the archive's
  directory.\<close>

definition ZipFile :: "world \<Rightarrow> string \<Rightarrow> error + bytes" where
  "ZipFile w uri =
     (case open_local w uri of
        Inl e \<Rightarrow> Inl e
      | Inr b \<Rightarrow> (case zip_namelist w b of None \<Rightarrow> Inl CodecError | Some names \<Rightarrow> Inr b))"

text \<open>The inner loop of \<^verbatim>\<open>scan_csv_zip\<close>: a member is read in binary mode, and
  each line is decoded when its turn comes.\<close>

fun zip_rows :: "world \<Rightarrow> bytes list \<Rightarrow> item list \<times> error option" where
  "zip_rows w [] = ([], None)"
| "zip_rows w (row # rows) =
     (if utf8_valid w row
      then (case zip_rows w rows of (ys, e) \<Rightarrow> (Str (replace_LF row) # ys, e))
      else ([], Some UnicodeDecodeError))"

text \<open>The outer loop: the archive is opened once more for every listed name. A line
  that does not decode ends the scan at its place; a damaged member ends it after the lines
  that could be read.\<close>

fun zip_members :: "world \<Rightarrow> string \<Rightarrow> string list \<Rightarrow> item run" where
  "zip_members w uri [] = Run [] [] None"
| "zip_members w uri (ffile # rest) =
     (case ZipFile w uri of
        Inl e \<Rightarrow> Run [LocalOpen uri] [] (Some e)
      | Inr b \<Rightarrow>
          (case zip_open w b ffile of
             None \<Rightarrow> Run [LocalOpen uri] [] (Some CodecError)
           | Some (ufile, damage) \<Rightarrow>
               (case zip_rows w (readlines ufile) of
                  (ys, Some e) \<Rightarrow> Run [LocalOpen uri] ys (Some e)
                | (ys, None) \<Rightarrow>
                    (case damage of
                       Some e \<Rightarrow> Run [LocalOpen uri] ys (Some e)
                     | None \<Rightarrow>
                         (case zip_members w uri rest of
                            Run trail zs e \<Rightarrow> Run (LocalOpen uri # trail) (ys @ zs) e)))))"

definition scan_csv_zip :: "world \<Rightarrow> string \<Rightarrow> item run" where
  "scan_csv_zip w uri =
     (case ZipFile w uri of
        Inl e \<Rightarrow> Run [LocalOpen uri] [] (Some e)
      | Inr b \<Rightarrow>
          (case zip_namelist w b of
             None \<Rightarrow> Run [LocalOpen uri] [] (Some CodecError)
           | Some names \<Rightarrow> after [LocalOpen uri] (zip_members w uri names)))"

subsection \<open>The directory walk\<close>

text \<open>\<^verbatim>\<open>os.path.join\<close> of two components.\<close>

definition join :: "string \<Rightarrow> string \<Rightarrow> string" where
  "join a b =
     (if startswith b ''/'' then b
      else if a = [] \<or> last a = CHR ''/'' then a @ b
      else a @ ''/'' @ b)"

text \<open>
  \<^verbatim>\<open>os.walk\<close>, top down: the triple of a directory (its path, the names of its
  entries that are directories, the names of the others), then the walks of its
  subdirectories in listing order. A subdirectory that cannot be listed is skipped without
  an error, and a link to a directory is named but not followed.
\<close>

fun is_dir :: "node \<Rightarrow> bool" where
  "is_dir (RegularFile b) = False"
| "is_dir UnreadableFile = False"
| "is_dir (Directory sub) = True"
| "is_dir (UnreadableDirectory sub) = True"
| "is_dir (LinkedDirectory sub) = True"

fun walk :: "string \<Rightarrow> (string \<times> node) list \<Rightarrow> (string \<times> string list \<times> string list) list" where
  "walk dirpath entries =
     (dirpath, [n. (n, e) \<leftarrow> entries, is_dir e], [n. (n, e) \<leftarrow> entries, \<not> is_dir e]) #
     concat (map (\<lambda>(n, e). case e of Directory sub \<Rightarrow> walk (join dirpath n) sub | _ \<Rightarrow> [])
                 entries)"

text \<open>\<^verbatim>\<open>os.walk(uri)\<close> lists the directory that the path names (a link is resolved);
  anything else yields no triple.\<close>

definition os_walk :: "world \<Rightarrow> string \<Rightarrow> (string \<times> string list \<times> string list) list" where
  "os_walk w uri =
     (case lookup w uri of
        Inr (Directory entries) \<Rightarrow> walk uri entries
      | Inr (LinkedDirectory entries) \<Rightarrow> walk uri entries
      | _ \<Rightarrow> [])"

text \<open>The handler \<^verbatim>\<open>except IsADirectoryError\<close> of \<^verbatim>\<open>scan\<close>.\<close>

definition walk_paths :: "world \<Rightarrow> string \<Rightarrow> item list" where
  "walk_paths w uri =
     concat (map (\<lambda>(dirpath, dirs, files).
                    map (\<lambda>ffile. Str (abspath w (dirpath @ ''/'' @ ffile))) files)
                 (os_walk w uri))"

text \<open>The \<^verbatim>\<open>try\<close> of \<^verbatim>\<open>scan\<close> encloses the inference and every scanner: what
  was yielded stays yielded, and the paths follow.\<close>

definition except_IsADirectoryError :: "world \<Rightarrow> string \<Rightarrow> item run \<Rightarrow> item run" where
  "except_IsADirectoryError w uri r =
     (if raised r = Some IsADirectoryError
      then Run (accesses r @ [LocalWalk uri]) (yielded r @ walk_paths w uri) None
      else r)"

subsection \<open>The dispatcher\<close>

definition scan :: "world \<Rightarrow> string \<Rightarrow> item run" where
  "scan w uri =
     except_IsADirectoryError w uri
       (case infer_file_type_from_uri w uri False of
          (trail, Inl e) \<Rightarrow> Run trail [] (Some e)
        | (trail, Inr inferred_type) \<Rightarrow>
            after trail
              (if inferred_type = ''CSV'' \<or> inferred_type = ''PLAIN'' then scan_csv w uri
               else if inferred_type = ''GZP'' then scan_csv_gzip w uri
               else if inferred_type = ''ZIP'' then scan_csv_zip w uri
               else if inferred_type = ''BZ2'' then scan_csv_bzip2 w uri
               else if inferred_type = ''LXZ'' then scan_csv_xz w uri
               else Run [] [] (Some FileScanNotPossible)))"


subsection \<open>The dispatch table of the specification\<close>

text \<open>
  The specification names one scanner per container and the tags that select it; the
  tags are written as the dispatcher compares them. \<open>run_scanner\<close> names the generator
  of the source that implements each scanner.
\<close>

datatype scanner = PlainCsvScanner | GzipScanner | ZipScanner | Bzip2Scanner | XzScanner

fun declared_tags :: "scanner \<Rightarrow> string list" where
  "declared_tags PlainCsvScanner = [''CSV'', ''PLAIN'']"
| "declared_tags GzipScanner = [''GZP'']"
| "declared_tags ZipScanner = [''ZIP'']"
| "declared_tags Bzip2Scanner = [''BZ2'']"
| "declared_tags XzScanner = [''LXZ'']"

fun run_scanner :: "world \<Rightarrow> scanner \<Rightarrow> string \<Rightarrow> item run" where
  "run_scanner w PlainCsvScanner uri = scan_csv w uri"
| "run_scanner w GzipScanner uri = scan_csv_gzip w uri"
| "run_scanner w ZipScanner uri = scan_csv_zip w uri"
| "run_scanner w Bzip2Scanner uri = scan_csv_bzip2 w uri"
| "run_scanner w XzScanner uri = scan_csv_xz w uri"

subsection \<open>The files of a directory tree\<close>

text \<open>
  The files of a tree as the specification counts them, directory by directory in depth:
  the path of every entry that is no directory, under every directory that can be reached
  from the top by listing readable directories. What lies under a directory that cannot be
  listed, or behind a link to a directory, is not reached.
\<close>

fun contained_files :: "string \<Rightarrow> (string \<times> node) list \<Rightarrow> string list" where
  "contained_files dirpath entries =
     concat (map (\<lambda>(n, e). case e of
                     RegularFile b \<Rightarrow> [dirpath @ ''/'' @ n]
                   | UnreadableFile \<Rightarrow> [dirpath @ ''/'' @ n]
                   | Directory sub \<Rightarrow> contained_files (join dirpath n) sub
                   | UnreadableDirectory sub \<Rightarrow> []
                   | LinkedDirectory sub \<Rightarrow> [])
                 entries)"

text \<open>The paths that the triples of a walk name, as the handler of \<^verbatim>\<open>scan\<close> builds
  them.\<close>

definition walked_files :: "(string \<times> string list \<times> string list) list \<Rightarrow> string list" where
  "walked_files triples =
     concat (map (\<lambda>(dirpath, dirs, files). map (\<lambda>ffile. dirpath @ ''/'' @ ffile) files) triples)"

subsection \<open>The lines of an archive\<close>

text \<open>A text made of lines, each terminated by the given terminator.\<close>

definition unlines :: "string \<Rightarrow> string list \<Rightarrow> string" where
  "unlines terminator ls = concat (map (\<lambda>l. l @ terminator) ls)"




subsection \<open>The generator protocol\<close>







subsection \<open>Example worlds\<close>

text \<open>A world with an empty file system and no server; its collaborators recognise
  nothing but the extension \<^verbatim>\<open>.csv\<close>, and the only bracketed host that is an address
  is \<^verbatim>\<open>::1\<close>.\<close>

definition void_world :: world where
  "void_world = \<lparr>
     local_fs = (\<lambda>p. Inl FileNotFoundError),
     http_body = (\<lambda>u. Inl URLError),
     bracketed_host_ok = (\<lambda>h. h = ''::1''),
     nfkc_ok = (\<lambda>n. True),
     guess_file_type = (\<lambda>b m. None),
     mimetypes_guess_type = (\<lambda>u. if u = ''data.csv'' then Some ''text/csv'' else None),
     utf8_valid = (\<lambda>b. CHR 0xFF \<notin> set b),
     splitlines = (\<lambda>s. [s]),
     csv_reader = (\<lambda>ls. (map (\<lambda>l. [l]) ls, None)),
     gzip_text = (\<lambda>b. ([], Some CodecError)),
     bz2_text = (\<lambda>b. ([], Some CodecError)),
     lzma_text = (\<lambda>b. ([], Some CodecError)),
     zip_namelist = (\<lambda>b. None),
     zip_open = (\<lambda>b n. None),
     abspath = (\<lambda>p. ''/home/'' @ p) \<rparr>"

text \<open>
  A world with regular files (one of them with a name that parses as a URL), directories
  (one with a name that parses as a URL, one with a name that does not parse, one that
  cannot be read, one that holds a subdirectory that cannot be listed) and a server that
  serves one gzip file.
\<close>

definition demo_world :: world where
  "demo_world = void_world \<lparr>
     local_fs := (\<lambda>p.
        if p = ''notes.txt'' then Inr (RegularFile ''alpha'')
        else if p = ''blob.bin'' then Inr (RegularFile ''??'')
        else if p = ''sample.q7'' then Inr (RegularFile ''!!'')
        else if p = ''http:x'' then Inr (RegularFile ''beta'')
        else if p = ''notes.txt/x'' then Inl NotADirectoryError
        else if p = ''photos'' \<or> p = ''http:d'' \<or> p = ''x://['' then
          Inr (Directory [(''a.txt'', RegularFile ''x''), (''b.csv'', RegularFile ''y'')])
        else if p = ''locked'' then
          Inr (UnreadableDirectory [(''a.txt'', RegularFile ''x'')])
        else if p = ''album'' then
          Inr (Directory [(''a.txt'', RegularFile ''x''),
                          (''sub'', Directory [(''b.csv'', RegularFile ''y'')]),
                          (''private'', UnreadableDirectory [(''c.txt'', RegularFile ''z'')])])
        else Inl FileNotFoundError),
     http_body := (\<lambda>u.
        if u = ''http://example.org/rows.csv.gz'' then Inr ''GZ'' else Inl URLError),
     guess_file_type := (\<lambda>b m. if b = ''GZ'' then Some ''GZP'' else None),
     mimetypes_guess_type := (\<lambda>u.
        if u = ''notes.txt'' then Some ''text/plain''
        else if u = ''blob.bin'' then Some ''application/octet-stream''
        else None) \<rparr>"

text \<open>
  A world with archives. \<^verbatim>\<open>rows.gz\<close> and \<^verbatim>\<open>rows.zip\<close> hold the same two lines
  with the line terminator \<^verbatim>\<open>\r\n\<close>. \<^verbatim>\<open>cut.gz\<close> is a gzip file whose end is
  missing: two lines can be read before the stream breaks off. \<^verbatim>\<open>mixed.zip\<close> has two
  members, the second of which has a second line that does not decode. \<^verbatim>\<open>mixed.csv\<close>
  is a text whose second line does not decode.
\<close>

definition archive_world :: world where
  "archive_world = void_world \<lparr>
     local_fs := (\<lambda>p.
        if p = ''rows.gz'' then Inr (RegularFile ''GZ'')
        else if p = ''rows.zip'' then Inr (RegularFile ''PK'')
        else if p = ''cut.gz'' then Inr (RegularFile ''GZ-'')
        else if p = ''mixed.zip'' then Inr (RegularFile ''PK2'')
        else if p = ''mixed.csv'' then Inr (RegularFile (''a,1'' @ [LF, CHR 0xFF, LF]))
        else Inl FileNotFoundError),
     guess_file_type := (\<lambda>b m.
        if b = ''GZ'' \<or> b = ''GZ-'' then Some ''GZP''
        else if b = ''PK'' \<or> b = ''PK2'' then Some ''ZIP''
        else None),
     mimetypes_guess_type := (\<lambda>u. if u = ''mixed.csv'' then Some ''text/csv'' else None),
     gzip_text := (\<lambda>b.
        if b = ''GZ'' then (unlines [CR, LF] [''a,1'', ''b,2''], None)
        else if b = ''GZ-'' then (unlines [LF] [''a,1'', ''b,2''], Some EOFError)
        else ([], Some CodecError)),
     zip_namelist := (\<lambda>b.
        if b = ''PK'' then Some [''rows.csv'']
        else if b = ''PK2'' then Some [''one.csv'', ''bad.csv'']
        else None),
     zip_open := (\<lambda>b n.
        if b = ''PK'' \<and> n = ''rows.csv'' then Some (unlines [CR, LF] [''a,1'', ''b,2''], None)
        else if b = ''PK2'' \<and> n = ''one.csv'' then Some (unlines [LF] [''a,1''], None)
        else if b = ''PK2'' \<and> n = ''bad.csv'' then
          Some (unlines [LF] [''b,2'', [CHR 0xFF], ''c,3''], None)
        else None) \<rparr>"

section \<open>The progress relay\<close>






subsection \<open>Floating point\<close>

text \<open>
  \<^verbatim>\<open>(index + 1) / count\<close> divides two integers into a float, and the percentage is
  multiplied in floating point. A float is represented by the rational number it stands
  for. \<open>round_double\<close> rounds a rational number to the nearest number with a significand
  of 53 bits, ties to the even significand, as IEEE 754 binary64 arithmetic does for every
  result whose magnitude lies between \<open>2\<^sup>-\<^sup>1\<^sup>0\<^sup>2\<^sup>2\<close> and \<open>2\<^sup>1\<^sup>0\<^sup>2\<^sup>4\<close>. The length of a
  sequence is below \<open>2\<^sup>6\<^sup>3\<close>, so the quotients of the relay lie between \<open>2\<^sup>-\<^sup>6\<^sup>3\<close> and 1, and
  their products with a number of columns or with 100 stay in that range.
\<close>







subsection \<open>The two loops\<close>








section \<open>Theorems\<close>

subsection \<open>Protocol resolution\<close>

lemma urlparse_scheme_error: "urlparse_scheme w uri = Inl e \<Longrightarrow> e = ValueError"
  by (auto simp: urlparse_scheme_def Let_def split: if_splits)








lemma infer_protocol_existing:
  "urlparse_scheme w uri = Inr s \<Longrightarrow> \<not> startswith s ''http'' \<Longrightarrow> lookup w uri = Inr n \<Longrightarrow>
   infer_protocol w uri = Inr FILE"
  by (simp add: infer_protocol_def path_exists_def)






subsection \<open>The unknown protocol\<close>

lemma get_unknown: "infer_protocol w uri = Inr UNKNOWN \<Longrightarrow> get w uri = ([], Inr Unknown)"
  by (simp add: get_def)

text \<open>
  C3, as amended. For a location whose protocol resolves to UNKNOWN,
  \<^verbatim>\<open>infer_file_type_from_uri\<close> fetches nothing and answers from the name alone: the
  \<^verbatim>\<open>raise\<close> stands inside the \<^verbatim>\<open>try\<close> whose handler guesses from the name. It
  fails with \<^verbatim>\<open>FileTypeNotSupportedYet\<close> exactly when \<^verbatim>\<open>mimetypes\<close> guesses no
  type for the name.
\<close>

theorem infer_unknown_protocol:
  "infer_protocol w uri = Inr UNKNOWN \<Longrightarrow>
     infer_file_type_from_uri w uri mimetype = ([], guess_from_name w uri mimetype) \<and>
     (infer_file_type_from_uri w uri mimetype = ([], Inl FileTypeNotSupportedYet) \<longleftrightarrow>
        mimetypes_guess_type w uri = None \<or> mimetypes_guess_type w uri = Some [])"
  by (auto simp: infer_file_type_from_uri_def get_unknown guess_from_name_def
      split: option.splits list.splits)

text \<open>The theorem at a missing path with an extension that \<^verbatim>\<open>mimetypes\<close> does not
  know.\<close>

theorem infer_unknown_protocol_witness:
  "infer_protocol void_world ''absent.bin'' = Inr UNKNOWN \<and>
   mimetypes_guess_type void_world ''absent.bin'' = None \<and>
   infer_file_type_from_uri void_world ''absent.bin'' False = ([], Inl FileTypeNotSupportedYet)"
proof -
  have unknown: "infer_protocol void_world ''absent.bin'' = Inr UNKNOWN"
    by code_simp
  have guess: "mimetypes_guess_type void_world ''absent.bin'' = None"
    by (simp add: void_world_def)
  from infer_unknown_protocol [OF unknown, of False] guess
  have "infer_file_type_from_uri void_world ''absent.bin'' False = ([], Inl FileTypeNotSupportedYet)"
    by (simp add: guess_from_name_def)
  with unknown guess show ?thesis
    by (intro conjI)
qed

text \<open>C3 as stated fails: the missing path \<^verbatim>\<open>data.csv\<close> resolves to UNKNOWN, and
  the inference succeeds with the tag \<^verbatim>\<open>CSV\<close>.\<close>

theorem infer_unknown_protocol_counterexample:
  "infer_protocol void_world ''data.csv'' = Inr UNKNOWN \<and>
   infer_file_type_from_uri void_world ''data.csv'' False = ([], Inr ''CSV'')"
  by code_simp

text \<open>
  C10. For a location whose protocol resolves to UNKNOWN, the generator of
  \<^verbatim>\<open>scan_csv\<close> raises \<^verbatim>\<open>FileTypeNotSupportedYet\<close> at its first pull: it yields
  no item before, and it performs no access.
\<close>

theorem scan_csv_unknown_protocol:
  "infer_protocol w uri = Inr UNKNOWN \<Longrightarrow>
   scan_csv w uri = Run [] [] (Some FileTypeNotSupportedYet)"
  by (simp add: scan_csv_def get_unknown)

text \<open>The theorem at a missing path.\<close>

theorem scan_csv_unknown_protocol_witness:
  "infer_protocol void_world ''absent.bin'' = Inr UNKNOWN \<and>
   scan_csv void_world ''absent.bin'' = Run [] [] (Some FileTypeNotSupportedYet)"
proof -
  have unknown: "infer_protocol void_world ''absent.bin'' = Inr UNKNOWN"
    by code_simp
  from scan_csv_unknown_protocol [OF unknown] unknown show ?thesis
    by (intro conjI)
qed

subsection \<open>Dispatch\<close>

declare walk.simps [simp del] contained_files.simps [simp del]

lemma scan_unmatched:
  "infer_file_type_from_uri w uri False = (trail, Inr t) \<Longrightarrow>
   t \<notin> set [''CSV'', ''PLAIN'', ''GZP'', ''ZIP'', ''BZ2'', ''LXZ''] \<Longrightarrow>
   scan w uri = Run trail [] (Some FileScanNotPossible)"
  by (simp add: scan_def after_def except_IsADirectoryError_def)

lemma scan_inference_fails:
  "infer_file_type_from_uri w uri False = (trail, Inl e) \<Longrightarrow> e \<noteq> IsADirectoryError \<Longrightarrow>
   scan w uri = Run trail [] (Some e)"
  by (simp add: scan_def except_IsADirectoryError_def)

lemma scan_selects:
  "infer_file_type_from_uri w uri False = (trail, Inr t) \<Longrightarrow> t \<in> set (declared_tags s) \<Longrightarrow>
   scan w uri = except_IsADirectoryError w uri (after trail (run_scanner w s uri))"
  by (cases s) (auto simp: scan_def)

lemma declared_tags_disjoint:
  "t \<in> set (declared_tags s) \<Longrightarrow> t \<in> set (declared_tags s') \<Longrightarrow> s' = s"
  by (cases s; cases s') auto

lemma yielded_except:
  "yielded (except_IsADirectoryError w uri (after trail r)) =
     yielded r @ (if raised r = Some IsADirectoryError then walk_paths w uri else [])"
  by (simp add: except_IsADirectoryError_def after_def)

text \<open>
  C1. When the inference succeeds with tag \<open>t\<close> and \<open>t\<close> is a tag declared for the
  scanner \<open>s\<close>, \<^verbatim>\<open>scan\<close> runs the generator of \<open>s\<close> and no other (inside its
  \<^verbatim>\<open>try\<close>): what it yields is what that generator yields, followed by directory
  paths only if that generator ended with \<^verbatim>\<open>IsADirectoryError\<close>. No other scanner
  declares \<open>t\<close>.
\<close>

theorem scan_dispatch:
  "infer_file_type_from_uri w uri False = (trail, Inr t) \<Longrightarrow> t \<in> set (declared_tags s) \<Longrightarrow>
   scan w uri = except_IsADirectoryError w uri (after trail (run_scanner w s uri)) \<and>
   yielded (scan w uri) =
     yielded (run_scanner w s uri) @
     (if raised (run_scanner w s uri) = Some IsADirectoryError then walk_paths w uri else []) \<and>
   (\<forall>s'. t \<in> set (declared_tags s') \<longrightarrow> s' = s)"
proof (intro conjI allI impI)
  assume inferred: "infer_file_type_from_uri w uri False = (trail, Inr t)"
    and declared: "t \<in> set (declared_tags s)"
  show selected: "scan w uri = except_IsADirectoryError w uri (after trail (run_scanner w s uri))"
    using inferred declared by (rule scan_selects)
  show "yielded (scan w uri) =
      yielded (run_scanner w s uri) @
      (if raised (run_scanner w s uri) = Some IsADirectoryError then walk_paths w uri else [])"
    unfolding selected by (rule yielded_except)
  show "s' = s" if "t \<in> set (declared_tags s')" for s'
    using declared that by (rule declared_tags_disjoint)
qed

text \<open>The theorem at the text file \<^verbatim>\<open>notes.txt\<close>, inferred as \<^verbatim>\<open>PLAIN\<close> from its
  name and read by the plain/CSV scanner.\<close>

theorem scan_dispatch_witness:
  "infer_file_type_from_uri demo_world ''notes.txt'' False = ([LocalOpen ''notes.txt''], Inr ''PLAIN'') \<and>
   ''PLAIN'' \<in> set (declared_tags PlainCsvScanner) \<and>
   run_scanner demo_world PlainCsvScanner ''notes.txt'' =
     Run [LocalOpen ''notes.txt''] [Row [''alpha'']] None \<and>
   yielded (scan demo_world ''notes.txt'') = [Row [''alpha'']]"
proof -
  have inferred: "infer_file_type_from_uri demo_world ''notes.txt'' False =
      ([LocalOpen ''notes.txt''], Inr ''PLAIN'')"
    by code_simp
  have declared: "''PLAIN'' \<in> set (declared_tags PlainCsvScanner)"
    by simp
  have ran: "run_scanner demo_world PlainCsvScanner ''notes.txt'' =
      Run [LocalOpen ''notes.txt''] [Row [''alpha'']] None"
    by code_simp
  have "yielded (scan demo_world ''notes.txt'') =
      yielded (run_scanner demo_world PlainCsvScanner ''notes.txt'') @
      (if raised (run_scanner demo_world PlainCsvScanner ''notes.txt'') = Some IsADirectoryError
       then walk_paths demo_world ''notes.txt'' else [])"
    using scan_dispatch [OF inferred declared] by (rule conjunct2 [THEN conjunct1])
  then have "yielded (scan demo_world ''notes.txt'') = [Row [''alpha'']]"
    unfolding ran by simp
  with inferred declared ran show ?thesis by (intro conjI)
qed

text \<open>
  C7. When the inferred tag is none of the tags a scanner is declared for, the first pull
  from \<^verbatim>\<open>scan\<close> raises \<^verbatim>\<open>FileScanNotPossible\<close> and nothing is yielded; and when
  the inference itself fails (with anything but \<^verbatim>\<open>IsADirectoryError\<close>), the first
  pull raises that failure and nothing is yielded. In neither case does the sequence end
  silently.
\<close>

theorem scan_without_scanner:
  "(infer_file_type_from_uri w uri False = (trail, Inr t) \<and>
      t \<notin> set [''CSV'', ''PLAIN'', ''GZP'', ''ZIP'', ''BZ2'', ''LXZ'']
      \<longrightarrow> scan w uri = Run trail [] (Some FileScanNotPossible)) \<and>
   (infer_file_type_from_uri w uri False = (trail, Inl e) \<and> e \<noteq> IsADirectoryError
      \<longrightarrow> scan w uri = Run trail [] (Some e))"
  using scan_unmatched [of w uri trail t] scan_inference_fails [of w uri trail e] by blast

text \<open>The theorem at \<^verbatim>\<open>blob.bin\<close>, whose content the classifier does not recognise and
  whose name gives the tag \<^verbatim>\<open>OCTET-STREAM\<close>, and at \<^verbatim>\<open>sample.q7\<close>, whose name
  gives no type either.\<close>

theorem scan_without_scanner_witness:
  "infer_file_type_from_uri demo_world ''blob.bin'' False =
     ([LocalOpen ''blob.bin''], Inr ''OCTET-STREAM'') \<and>
   ''OCTET-STREAM'' \<notin> set [''CSV'', ''PLAIN'', ''GZP'', ''ZIP'', ''BZ2'', ''LXZ''] \<and>
   scan demo_world ''blob.bin'' = Run [LocalOpen ''blob.bin''] [] (Some FileScanNotPossible) \<and>
   infer_file_type_from_uri demo_world ''sample.q7'' False =
     ([LocalOpen ''sample.q7''], Inl FileTypeNotSupportedYet) \<and>
   scan demo_world ''sample.q7'' = Run [LocalOpen ''sample.q7''] [] (Some FileTypeNotSupportedYet)"
proof -
  have blob: "infer_file_type_from_uri demo_world ''blob.bin'' False =
      ([LocalOpen ''blob.bin''], Inr ''OCTET-STREAM'')"
    by code_simp
  have sample: "infer_file_type_from_uri demo_world ''sample.q7'' False =
      ([LocalOpen ''sample.q7''], Inl FileTypeNotSupportedYet)"
    by code_simp
  have unmatched: "''OCTET-STREAM'' \<notin> set [''CSV'', ''PLAIN'', ''GZP'', ''ZIP'', ''BZ2'', ''LXZ'']"
    by simp
  have "scan demo_world ''blob.bin'' = Run [LocalOpen ''blob.bin''] [] (Some FileScanNotPossible)"
    using scan_without_scanner [of demo_world "''blob.bin''" "[LocalOpen ''blob.bin'']"
        "''OCTET-STREAM''" FileTypeNotSupportedYet] blob unmatched
    by blast
  moreover
  have "scan demo_world ''sample.q7'' =
      Run [LocalOpen ''sample.q7''] [] (Some FileTypeNotSupportedYet)"
    using scan_without_scanner [of demo_world "''sample.q7''" "[LocalOpen ''sample.q7'']"
        "''OCTET-STREAM''" FileTypeNotSupportedYet] sample
    by blast
  ultimately show ?thesis
    using blob sample unmatched by (intro conjI)
qed

subsection \<open>Fetch strategies\<close>

text \<open>
  C4 fails on the code. The server of the example world serves a gzip file at
  \<^verbatim>\<open>http://example.org/rows.csv.gz\<close>. The location is HTTP; the inference fetches it
  with an HTTP GET and answers \<^verbatim>\<open>GZP\<close>; \<^verbatim>\<open>scan_csv_gzip\<close> then opens the same
  string as a path of the local file system, which is the other strategy, and the scan
  ends with \<^verbatim>\<open>FileNotFoundError\<close>.
\<close>

theorem scan_remote_gzip_mixes_strategies:
  "infer_protocol demo_world ''http://example.org/rows.csv.gz'' = Inr HTTP \<and>
   infer_file_type_from_uri demo_world ''http://example.org/rows.csv.gz'' False =
     ([HttpGet ''http://example.org/rows.csv.gz''], Inr ''GZP'') \<and>
   scan demo_world ''http://example.org/rows.csv.gz'' =
     Run [HttpGet ''http://example.org/rows.csv.gz'', LocalOpen ''http://example.org/rows.csv.gz'']
       [] (Some FileNotFoundError)"
  by code_simp

subsection \<open>Directories\<close>

lemma walked_files_append: "walked_files (xs @ ys) = walked_files xs @ walked_files ys"
  by (simp add: walked_files_def)

lemma walked_files_concat: "walked_files (concat xss) = concat (map walked_files xss)"
  by (induction xss) (simp_all add: walked_files_append, simp add: walked_files_def)

lemma walked_files_walk:
  "walked_files (walk dirpath entries) =
     map (\<lambda>ffile. dirpath @ ''/'' @ ffile) [n. (n, e) \<leftarrow> entries, \<not> is_dir e] @
     concat (map (\<lambda>(n, e). case e of Directory sub \<Rightarrow> walked_files (walk (join dirpath n) sub)
                                     | _ \<Rightarrow> [])
                 entries)"
proof -
  have "walked_files (walk dirpath entries) =
      map (\<lambda>ffile. dirpath @ ''/'' @ ffile) [n. (n, e) \<leftarrow> entries, \<not> is_dir e] @
      walked_files (concat (map (\<lambda>(n, e). case e of Directory sub \<Rightarrow> walk (join dirpath n) sub
                                                    | _ \<Rightarrow> [])
                          entries))"
    by (subst walk.simps) (simp add: walked_files_def)
  also have "walked_files (concat (map (\<lambda>(n, e). case e of Directory sub \<Rightarrow> walk (join dirpath n) sub
                                                    | _ \<Rightarrow> [])
                          entries)) =
      concat (map (\<lambda>(n, e). case e of Directory sub \<Rightarrow> walked_files (walk (join dirpath n) sub)
                                     | _ \<Rightarrow> [])
                 entries)"
    unfolding walked_files_concat map_map
    by (rule arg_cong [where f = concat], rule map_cong)
      (auto split: node.splits simp: walked_files_def)
  finally show ?thesis .
qed

text \<open>The walk names the contained files, each once; it names the files of a directory
  before those of its subdirectories.\<close>

lemma walk_reaches_contained:
  "mset (walked_files (walk dirpath entries)) = mset (contained_files dirpath entries)"
proof (induction dirpath entries rule: walk.induct)
  case (1 dirpath entries)
  define deeper :: "string \<times> node \<Rightarrow> string list" where
    "deeper = (\<lambda>(n, e). case e of
                 Directory sub \<Rightarrow> walked_files (walk (join dirpath n) sub)
               | _ \<Rightarrow> [])"
  define own :: "string \<times> node \<Rightarrow> string list" where
    "own = (\<lambda>(n, e). case e of
              RegularFile b \<Rightarrow> [dirpath @ ''/'' @ n]
            | UnreadableFile \<Rightarrow> [dirpath @ ''/'' @ n]
            | Directory sub \<Rightarrow> contained_files (join dirpath n) sub
            | UnreadableDirectory sub \<Rightarrow> []
            | LinkedDirectory sub \<Rightarrow> [])"
  define here :: "string \<times> node \<Rightarrow> string list" where
    "here = (\<lambda>(n, e). if is_dir e then [] else [dirpath @ ''/'' @ n])"
  have entry: "mset (here a) + mset (deeper a) = mset (own a)" if "a \<in> set entries" for a
  proof -
    obtain n e where a: "a = (n, e)"
      by (cases a)
    show ?thesis
    proof (cases e)
      case (Directory sub)
      with that a have "mset (walked_files (walk (join dirpath n) sub)) =
          mset (contained_files (join dirpath n) sub)"
        using "1.IH" by blast
      with Directory show ?thesis
        by (simp add: a here_def deeper_def own_def)
    qed (simp_all add: a here_def deeper_def own_def)
  qed
  have step: "mset (concat (map here es)) + mset (concat (map deeper es)) =
      mset (concat (map own es))" if "set es \<subseteq> set entries" for es
    using that
  proof (induction es)
    case Nil
    then show ?case by simp
  next
    case (Cons a es)
    then have "mset (concat (map here es)) + mset (concat (map deeper es)) =
        mset (concat (map own es))" and "mset (here a) + mset (deeper a) = mset (own a)"
      using entry by simp_all
    then show ?case
      by (simp add: ac_simps)
  qed
  have files: "map (\<lambda>ffile. dirpath @ ''/'' @ ffile) [n. (n, e) \<leftarrow> entries, \<not> is_dir e] =
      concat (map here entries)"
    by (induction entries) (auto simp: here_def)
  have "mset (walked_files (walk dirpath entries)) =
      mset (concat (map here entries)) + mset (concat (map deeper entries))"
    by (subst walked_files_walk) (simp only: files deeper_def mset_append)
  also have "\<dots> = mset (concat (map own entries))"
    by (rule step) simp
  also have "concat (map own entries) = contained_files dirpath entries"
    by (subst contained_files.simps) (simp only: own_def)
  finally show ?case .
qed

lemma path_items:
  "concat (map (\<lambda>(dirpath, dirs, files). map (\<lambda>ffile. g (dirpath @ ''/'' @ ffile)) files) triples) =
     map g (walked_files triples)"
  by (induction triples) (auto simp: walked_files_def)

lemma walk_paths_walked:
  "walk_paths w uri = map (\<lambda>p. Str (abspath w p)) (walked_files (os_walk w uri))"
  unfolding walk_paths_def by (rule path_items)

lemma os_walk_directory:
  "lookup w uri = Inr d \<Longrightarrow> d = Directory entries \<or> d = LinkedDirectory entries \<Longrightarrow>
   os_walk w uri = walk uri entries"
  by (auto simp: os_walk_def)

lemma walk_paths_contained:
  assumes "lookup w uri = Inr d" and "d = Directory entries \<or> d = LinkedDirectory entries"
  shows "mset (walk_paths w uri) = mset (map (\<lambda>p. Str (abspath w p)) (contained_files uri entries))"
proof -
  have "mset (walk_paths w uri) =
      image_mset (\<lambda>p. Str (abspath w p)) (mset (walked_files (walk uri entries)))"
    by (simp add: walk_paths_walked os_walk_directory [OF assms])
  also have "\<dots> = image_mset (\<lambda>p. Str (abspath w p)) (mset (contained_files uri entries))"
    by (simp only: walk_reaches_contained)
  finally show ?thesis
    by simp
qed

lemma walk_flat:
  assumes "\<forall>e \<in> set entries. \<exists>n b. e = (n, RegularFile b)"
  shows "walk dirpath entries = [(dirpath, [], map fst entries)]"
proof -
  from assms have "[n. (n, e) \<leftarrow> entries, is_dir e] = []"
    by (induction entries) auto
  moreover from assms have "[n. (n, e) \<leftarrow> entries, \<not> is_dir e] = map fst entries"
    by (induction entries) auto
  moreover from assms
  have "concat (map (\<lambda>(n, e). case e of Directory sub \<Rightarrow> walk (join dirpath n) sub | _ \<Rightarrow> [])
                    entries) = []"
    by (induction entries) auto
  ultimately show ?thesis
    by (subst walk.simps) simp
qed

lemma get_directory:
  assumes "lookup w uri = Inr d" and "d = Directory entries \<or> d = LinkedDirectory entries"
    and "urlparse_scheme w uri = Inr s" and "\<not> startswith s ''http''"
  shows "get w uri = ([LocalOpen uri], Inl IsADirectoryError)"
proof -
  from assms(1,3,4) have "infer_protocol w uri = Inr FILE"
    by (simp add: infer_protocol_existing)
  moreover from assms(1,2) have "open_local w uri = Inl IsADirectoryError"
    by (auto simp: open_local_def)
  ultimately show ?thesis
    by (simp add: get_def get_local_def)
qed

lemma scan_directory:
  assumes "lookup w uri = Inr d" and "d = Directory entries \<or> d = LinkedDirectory entries"
    and "urlparse_scheme w uri = Inr s" and "\<not> startswith s ''http''"
  shows "scan w uri = Run [LocalOpen uri, LocalWalk uri] (walk_paths w uri) None"
  by (simp add: scan_def infer_file_type_from_uri_def get_directory [OF assms]
      except_IsADirectoryError_def)

lemma walk_paths_flat:
  assumes "lookup w uri = Inr d" and "d = Directory entries \<or> d = LinkedDirectory entries"
    and "\<forall>e \<in> set entries. \<exists>n b. e = (n, RegularFile b)"
  shows "walk_paths w uri = map (\<lambda>e. Str (abspath w (uri @ ''/'' @ fst e))) entries"
  by (simp add: walk_paths_def os_walk_directory [OF assms(1,2)] walk_flat [OF assms(3)] comp_def)

lemma walk_paths_are_paths: "y \<in> set (walk_paths w uri) \<Longrightarrow> \<exists>p. y = Str (abspath w p)"
  by (auto simp: walk_paths_def)

text \<open>
  C5, as amended. For every location that is a directory the process may read (or a link
  to one) and whose name parses as a URL with a scheme that does not begin with
  \<^verbatim>\<open>http\<close>, \<^verbatim>\<open>scan\<close> does not fail: the attempt to read the location raises
  \<^verbatim>\<open>IsADirectoryError\<close>, and the handler yields \<^verbatim>\<open>abspath\<close> of the path of every
  file that can be reached from the directory through readable subdirectories, one item
  per file, in the order of \<^verbatim>\<open>os.walk\<close> (which is not the order of the listing in
  depth, hence the comparison as multisets), and no row. A directory that holds regular
  files only yields one path per entry, in listing order.
\<close>

theorem scan_directory_walk:
  "lookup w uri = Inr d \<Longrightarrow> d = Directory entries \<or> d = LinkedDirectory entries \<Longrightarrow>
   urlparse_scheme w uri = Inr s \<Longrightarrow> \<not> startswith s ''http'' \<Longrightarrow>
   scan w uri = Run [LocalOpen uri, LocalWalk uri] (walk_paths w uri) None \<and>
   mset (yielded (scan w uri)) =
     mset (map (\<lambda>p. Str (abspath w p)) (contained_files uri entries)) \<and>
   length (yielded (scan w uri)) = length (contained_files uri entries) \<and>
   (\<forall>y \<in> set (yielded (scan w uri)). \<exists>p. y = Str (abspath w p)) \<and>
   ((\<forall>e \<in> set entries. \<exists>n b. e = (n, RegularFile b)) \<longrightarrow>
      yielded (scan w uri) = map (\<lambda>e. Str (abspath w (uri @ ''/'' @ fst e))) entries)"
proof -
  assume found: "lookup w uri = Inr d"
    and dir: "d = Directory entries \<or> d = LinkedDirectory entries"
    and parsed: "urlparse_scheme w uri = Inr s"
    and local: "\<not> startswith s ''http''"
  have ran: "scan w uri = Run [LocalOpen uri, LocalWalk uri] (walk_paths w uri) None"
    using found dir parsed local by (rule scan_directory)
  have same: "mset (walk_paths w uri) =
      mset (map (\<lambda>p. Str (abspath w p)) (contained_files uri entries))"
    using found dir by (rule walk_paths_contained)
  from same have "size (mset (walk_paths w uri)) =
      size (mset (map (\<lambda>p. Str (abspath w p)) (contained_files uri entries)))"
    by (rule arg_cong)
  then have as_many: "length (walk_paths w uri) = length (contained_files uri entries)"
    by simp
  have paths: "\<forall>y \<in> set (walk_paths w uri). \<exists>p. y = Str (abspath w p)"
    using walk_paths_are_paths by blast
  have flat: "(\<forall>e \<in> set entries. \<exists>n b. e = (n, RegularFile b)) \<longrightarrow>
      walk_paths w uri = map (\<lambda>e. Str (abspath w (uri @ ''/'' @ fst e))) entries"
    using walk_paths_flat [OF found dir] by blast
  show ?thesis
    unfolding ran run.sel by (intro conjI refl same as_many paths flat)
qed

text \<open>The theorem at the directory \<^verbatim>\<open>photos\<close>, which holds \<^verbatim>\<open>a.txt\<close> and
  \<^verbatim>\<open>b.csv\<close>: two paths, no row.\<close>

theorem scan_directory_walk_witness:
  "lookup demo_world ''photos'' =
     Inr (Directory [(''a.txt'', RegularFile ''x''), (''b.csv'', RegularFile ''y'')]) \<and>
   urlparse_scheme demo_world ''photos'' = Inr [] \<and>
   scan demo_world ''photos'' =
     Run [LocalOpen ''photos'', LocalWalk ''photos'']
       [Str ''/home/photos/a.txt'', Str ''/home/photos/b.csv''] None \<and>
   contained_files ''photos'' [(''a.txt'', RegularFile ''x''), (''b.csv'', RegularFile ''y'')] =
     [''photos/a.txt'', ''photos/b.csv''] \<and>
   yielded (scan demo_world ''photos'') = [Str ''/home/photos/a.txt'', Str ''/home/photos/b.csv'']"
proof -
  have found: "lookup demo_world ''photos'' =
      Inr (Directory [(''a.txt'', RegularFile ''x''), (''b.csv'', RegularFile ''y'')])"
    by code_simp
  have parsed: "urlparse_scheme demo_world ''photos'' = Inr []"
    by code_simp
  have local: "\<not> startswith [] ''http''"
    by (simp add: startswith_def)
  have home: "abspath demo_world = (\<lambda>p. ''/home/'' @ p)"
    by (simp add: demo_world_def void_world_def)
  have contained: "contained_files ''photos''
      [(''a.txt'', RegularFile ''x''), (''b.csv'', RegularFile ''y'')] =
      [''photos/a.txt'', ''photos/b.csv'']"
    by code_simp
  have flat: "\<forall>e \<in> set [(''a.txt'', RegularFile ''x''), (''b.csv'', RegularFile ''y'')].
      \<exists>n b. e = (n, RegularFile b)"
    by simp
  have dir: "Directory [(''a.txt'', RegularFile ''x''), (''b.csv'', RegularFile ''y'')] =
      Directory [(''a.txt'', RegularFile ''x''), (''b.csv'', RegularFile ''y'')] \<or>
      Directory [(''a.txt'', RegularFile ''x''), (''b.csv'', RegularFile ''y'')] =
      LinkedDirectory [(''a.txt'', RegularFile ''x''), (''b.csv'', RegularFile ''y'')]"
    by simp
  note walked = scan_directory_walk [OF found dir parsed local]
  note walked [THEN conjunct2, THEN conjunct2, THEN conjunct2, THEN conjunct2]
  with flat have "yielded (scan demo_world ''photos'') =
      map (\<lambda>e. Str (abspath demo_world (''photos'' @ ''/'' @ fst e)))
        [(''a.txt'', RegularFile ''x''), (''b.csv'', RegularFile ''y'')]"
    by (rule rev_mp)
  then have items: "yielded (scan demo_world ''photos'') =
      [Str ''/home/photos/a.txt'', Str ''/home/photos/b.csv'']"
    by (simp add: home)
  from walked have "scan demo_world ''photos'' =
      Run [LocalOpen ''photos'', LocalWalk ''photos''] (walk_paths demo_world ''photos'') None"
    by (rule conjunct1)
  with items have "scan demo_world ''photos'' =
      Run [LocalOpen ''photos'', LocalWalk ''photos'']
        [Str ''/home/photos/a.txt'', Str ''/home/photos/b.csv''] None"
    by simp
  with found parsed contained items show ?thesis
    by (intro conjI)
qed

text \<open>
  C5 as stated fails. \<^verbatim>\<open>http:d\<close> is a directory with two files whose name parses as a
  URL of scheme \<^verbatim>\<open>http\<close>: the location is fetched from the network and the scan fails.
  \<^verbatim>\<open>locked\<close> is a directory that the process may not read: the scan fails with
  \<^verbatim>\<open>PermissionError\<close>. \<^verbatim>\<open>x://[\<close> is a directory whose name does not parse as a URL:
  the scan fails with \<^verbatim>\<open>ValueError\<close>. \<^verbatim>\<open>album\<close> holds three files, one of them
  under a subdirectory that cannot be listed: the scan yields two paths.
\<close>

theorem scan_directory_fails_counterexample:
  "lookup demo_world ''http:d'' =
     Inr (Directory [(''a.txt'', RegularFile ''x''), (''b.csv'', RegularFile ''y'')]) \<and>
   scan demo_world ''http:d'' = Run [HttpGet ''http:d''] [] (Some URLError) \<and>
   lookup demo_world ''locked'' = Inr (UnreadableDirectory [(''a.txt'', RegularFile ''x'')]) \<and>
   scan demo_world ''locked'' = Run [LocalOpen ''locked''] [] (Some PermissionError) \<and>
   lookup demo_world ''x://['' =
     Inr (Directory [(''a.txt'', RegularFile ''x''), (''b.csv'', RegularFile ''y'')]) \<and>
   scan demo_world ''x://['' = Run [] [] (Some ValueError) \<and>
   lookup demo_world ''album'' =
     Inr (Directory [(''a.txt'', RegularFile ''x''),
                     (''sub'', Directory [(''b.csv'', RegularFile ''y'')]),
                     (''private'', UnreadableDirectory [(''c.txt'', RegularFile ''z'')])]) \<and>
   scan demo_world ''album'' =
     Run [LocalOpen ''album'', LocalWalk ''album'']
       [Str ''/home/album/a.txt'', Str ''/home/album/sub/b.csv''] None"
  by code_simp

subsection \<open>The scanners of compressed sources\<close>

text \<open>
  C6 fails on the code. The gzip file \<^verbatim>\<open>rows.gz\<close> and the member of the zip archive
  \<^verbatim>\<open>rows.zip\<close> hold the same text, two lines terminated by \<^verbatim>\<open>\r\n\<close>.
  \<^verbatim>\<open>scan_csv_gzip\<close> reads in text mode, where every line terminator becomes
  \<^verbatim>\<open>\n\<close>, and yields the two lines without terminator. \<^verbatim>\<open>scan_csv_zip\<close> reads
  the member in binary mode and removes \<^verbatim>\<open>\n\<close> only: each of its two items ends
  with a carriage return.
\<close>

theorem zip_scanner_keeps_carriage_returns:
  "gzip_text archive_world ''GZ'' = (''a,1'' @ [CR, LF] @ ''b,2'' @ [CR, LF], None) \<and>
   scan_csv_gzip archive_world ''rows.gz'' =
     Run [LocalOpen ''rows.gz''] [Str ''a,1'', Str ''b,2''] None \<and>
   zip_namelist archive_world ''PK'' = Some [''rows.csv''] \<and>
   zip_open archive_world ''PK'' ''rows.csv'' =
     Some (''a,1'' @ [CR, LF] @ ''b,2'' @ [CR, LF], None) \<and>
   scan_csv_zip archive_world ''rows.zip'' =
     Run [LocalOpen ''rows.zip'', LocalOpen ''rows.zip'']
       [Str (''a,1'' @ [CR]), Str (''b,2'' @ [CR])] None \<and>
   yielded (scan archive_world ''rows.gz'') = [Str ''a,1'', Str ''b,2''] \<and>
   yielded (scan archive_world ''rows.zip'') = [Str (''a,1'' @ [CR]), Str (''b,2'' @ [CR])]"
  by code_simp

subsection \<open>Laziness\<close>
























subsection \<open>Rounding\<close>























subsection \<open>The progress relay\<close>


















end
